theory Spec2Isabelle
  imports Main "HOL-Library.Word"
begin

unbundle bit_operations_syntax

section \<open>Errors, packets and the timer\<close>

text \<open>
  Go's \<open>error\<close> is an interface; the values the package compares or inspects are the
  sentinels of \<open>errors.New\<close> (compared by identity), \<open>*net.OpError\<close> (inspected through
  \<open>Timeout()\<close> and its \<open>Err\<close> field) and everything else, which carries a message only.
\<close>

type_synonym byte = "8 word"

datatype inner_error = ENOBUFS | OtherInner string

datatype error =
    ErrAlreadyConnected
  | ErrNoAddress
  | ErrNotConnected
  | ErrICMPIgnoredPacket
  | OpError bool inner_error  \<comment> \<open>\<open>*net.OpError\<close>: what \<open>Timeout()\<close> reports, and the field \<open>Err\<close>\<close>
  | ErrorString string        \<comment> \<open>any other error value, by its message\<close>

text \<open>A call either returns or panics (a failed type assertion, a nil dereference).\<close>

datatype 'a go = Ret 'a | Panic

record 'a PacketMeta =
  Address :: 'a  \<comment> \<open>\<open>net.Addr\<close>, an interface: what the driver reports\<close>

record RawPacket =
  Message :: "byte list"
  Size :: int
  TTL :: int

record 't TimedPacket =
  RTT :: int
  Sent :: 't

record ('a, 't) Packet =
  packetMeta :: "'a PacketMeta"
  rawPacket :: RawPacket
  timedPacket :: "'t TimedPacket"

text \<open>
  \<open>time.Time\<close> and \<open>time.Duration\<close> of the standard library. A duration is a signed
  64-bit count of nanoseconds. An instant of the Pinger's timer is its place on the time
  line in nanoseconds from the Unix epoch; \<open>time.Time\<close> reaches far beyond what 64 bits of
  nanoseconds hold, so the place is an unbounded integer. The zero \<open>Time\<close>, the value of
  the fields of a new \<open>Timer\<close>, is January 1 of year 1, 62135596800 seconds before the
  epoch. \<open>Time.Sub\<close> returns the difference when a duration holds it and the nearest
  bound of the duration otherwise.
\<close>

definition Time_zero :: int where
  "Time_zero = - 62135596800000000000"

definition minDuration :: int where
  "minDuration = - (2 ^ 63)"

definition maxDuration :: int where
  "maxDuration = 2 ^ 63 - 1"

definition Time_Sub :: "int \<Rightarrow> int \<Rightarrow> int" where
  "Time_Sub t u =
     (if t - u < minDuration then minDuration
      else if maxDuration < t - u then maxDuration
      else t - u)"

record 't Timer =
  Started :: 't
  Stopped :: 't

definition Timer_Elapsed :: "int Timer \<Rightarrow> int" where
  "Timer_Elapsed t = Time_Sub (Stopped t) (Started t)"

definition Timer_Start :: "'t \<Rightarrow> 't Timer \<Rightarrow> 't Timer" where
  "Timer_Start now t = t\<lparr>Started := now\<rparr>"

definition Timer_Stop :: "'t \<Rightarrow> 't Timer \<Rightarrow> 't Timer" where
  "Timer_Stop now t = t\<lparr>Stopped := now\<rparr>"

section \<open>The Pinger over a Driver\<close>

text \<open>
  The \<open>Driver\<close> interface is a table of methods over the driver's own state \<open>'d\<close>; every
  method returns the state it leaves behind, \<open>Ping\<close> also the timer it was handed.
\<close>

record ('d, 'c, 't, 'a) Driver =
  drv_Address :: "'d \<Rightarrow> 'a"
  drv_Connect :: "'c \<Rightarrow> 'd \<Rightarrow> error option \<times> 'd"
  drv_Disconnect :: "'d \<Rightarrow> error option \<times> 'd"
  drv_Ping :: "'d \<Rightarrow> 't Timer \<Rightarrow> (RawPacket \<times> error option) \<times> 't Timer \<times> 'd"

record 'd pinger =
  connected :: bool
  driver :: 'd

definition New :: "'d \<Rightarrow> 'd pinger" where
  "New d = \<lparr>connected = False, driver = d\<rparr>"

definition pinger_Connect ::
  "('d, 'c, 't, 'a) Driver \<Rightarrow> 'c \<Rightarrow> 'd pinger \<Rightarrow> error option \<times> 'd pinger" where
  "pinger_Connect D ctx p =
     (if connected p then (Some ErrAlreadyConnected, p)
      else (case drv_Connect D ctx (driver p) of
              (err, d') \<Rightarrow>
                (err, (if err = None then p\<lparr>driver := d'\<rparr>\<lparr>connected := True\<rparr>
                       else p\<lparr>driver := d'\<rparr>))))"

definition pinger_Disconnect ::
  "('d, 'c, 't, 'a) Driver \<Rightarrow> 'd pinger \<Rightarrow> error option \<times> 'd pinger" where
  "pinger_Disconnect D p =
     (if \<not> connected p then (Some ErrNotConnected, p)
      else (case drv_Disconnect D (driver p) of
              (err, d') \<Rightarrow>
                (err, (if err = None then p\<lparr>driver := d'\<rparr>\<lparr>connected := False\<rparr>
                       else p\<lparr>driver := d'\<rparr>))))"

text \<open>
  \<open>Ping\<close> returns \<open>(Packet{}, err)\<close> on failure; the zero packet is never read by a caller
  that checks the error, and the result is a sum with the error on the left.
\<close>

definition pinger_Ping ::
  "('d, 'c, int, 'a) Driver \<Rightarrow> 'd pinger \<Rightarrow> (error + ('a, int) Packet) \<times> 'd pinger" where
  "pinger_Ping D p =
     (let timer = \<lparr>Started = Time_zero, Stopped = Time_zero\<rparr> in
      case drv_Ping D (driver p) timer of
        ((raw, err), timer', d') \<Rightarrow>
          (case err of
             Some e \<Rightarrow> (Inl e, p\<lparr>driver := d'\<rparr>)
           | None \<Rightarrow>
               (Inr \<lparr>packetMeta = \<lparr>Address = drv_Address D d'\<rparr>,
                     rawPacket = raw,
                     timedPacket = \<lparr>RTT = Timer_Elapsed timer', Sent = Started timer'\<rparr>\<rparr>,
                p\<lparr>driver := d'\<rparr>)))"

text \<open>A driver that counts its calls and fails when told to, to run the Pinger on.\<close>

definition counting_driver :: "bool \<Rightarrow> (nat, unit, int, string) Driver" where
  "counting_driver ok =
     \<lparr>drv_Address = (\<lambda>n. ''127.0.0.1''),
      drv_Connect = (\<lambda>_ n. (if ok then None else Some (ErrorString ''listen failed''), Suc n)),
      drv_Disconnect = (\<lambda>n. (if ok then None else Some (ErrorString ''close failed''), Suc n)),
      drv_Ping = (\<lambda>n t.
         if ok then ((\<lparr>Message = [1, 2, 3], Size = 3, TTL = 64\<rparr>, None),
                     \<lparr>Started = 1000, Stopped = 1250\<rparr>, Suc n)
         else ((\<lparr>Message = [], Size = 0, TTL = 0\<rparr>, Some (ErrorString ''no route'')), t, Suc n))\<rparr>"

text \<open>
  A driver whose probe succeeds and leaves the timer with the two stamps given. With the
  zero instant for the stop it is a probe that returns its reply when the timer has been
  started and not yet stopped.
\<close>

definition stamping_driver :: "int \<Rightarrow> int \<Rightarrow> (nat, unit, int, string) Driver" where
  "stamping_driver s e =
     \<lparr>drv_Address = (\<lambda>n. ''127.0.0.1''),
      drv_Connect = (\<lambda>_ n. (None, n)),
      drv_Disconnect = (\<lambda>n. (None, n)),
      drv_Ping = (\<lambda>n t.
         ((\<lparr>Message = [1, 2, 3], Size = 3, TTL = 64\<rparr>, None), \<lparr>Started = s, Stopped = e\<rparr>, n))\<rparr>"

section \<open>The ICMP message codec\<close>

text \<open>
  \<open>icmp.Type\<close> is an interface over \<open>ipv4.ICMPType\<close> and \<open>ipv6.ICMPType\<close>; two types are
  equal when the family and the number agree. \<open>icmp.MessageBody\<close> is an interface too: the
  body of a message is an \<open>*icmp.Echo\<close> or a value of some other type.
\<close>

datatype icmp_Type = ICMPv4Type nat | ICMPv6Type nat

record Echo =
  ID :: int
  Seq :: int
  Data :: "byte list"

datatype MessageBody = EchoBody Echo | OtherBody

record Message =
  Type :: icmp_Type
  Code :: int
  Body :: MessageBody

datatype icmpProtocolHandler = icmpIPv4Handler | icmpIPv6Handler

fun ReplyType :: "icmpProtocolHandler \<Rightarrow> icmp_Type" where
  "ReplyType icmpIPv4Handler = ICMPv4Type 0"
| "ReplyType icmpIPv6Handler = ICMPv6Type 129"

fun RequestType :: "icmpProtocolHandler \<Rightarrow> icmp_Type" where
  "RequestType icmpIPv4Handler = ICMPv4Type 8"
| "RequestType icmpIPv6Handler = ICMPv6Type 128"

definition timeSize :: nat where
  "timeSize = 8"

definition trackerSize :: nat where
  "trackerSize = 8"

text \<open>
  The fields of Go's type \<open>int\<close> that the package only stores and compares are their
  values. The sequence number is the one \<open>int\<close> it counts with: it is the 64 bits of an
  \<open>int\<close> on a 64-bit platform, read as signed by \<open>sint\<close>, and \<open>++\<close> on the largest
  value gives the smallest.
\<close>

record icmpMessageProvider =
  id' :: int
  msgType :: icmp_Type
  seq :: "64 word"
  tracker :: "64 word"

text \<open>
  The two draws of the random generator, \<open>rng.Intn(math.MaxInt16)\<close> and
  \<open>rng.Int63n(math.MaxInt64)\<close>, are arguments.
\<close>

definition newICMPMessageProvider ::
  "icmpProtocolHandler \<Rightarrow> int \<Rightarrow> 64 word \<Rightarrow> icmpMessageProvider" where
  "newICMPMessageProvider h rid rtracker =
     \<lparr>id' = rid, msgType = RequestType h, seq = 0, tracker = rtracker\<rparr>"

text \<open>
  Modelled from the spec: \<open>intToBytes\<close> is called by \<open>WriteData\<close> and defined in a file that
  is not among the sources. The spec (4.2) has the tracker written as a fixed 8-byte integer,
  in the byte order the decoder reads; here the most significant byte comes first.
\<close>

definition intToBytes :: "64 word \<Rightarrow> byte list" where
  "intToBytes w = map (\<lambda>i. ucast (drop_bit (8 * (7 - i)) w)) [0..<8]"

text \<open>
  Modelled from the spec: \<open>bytesToInt\<close> is called by \<open>ReadData\<close> and defined in a file that
  is not among the sources. It reads the fixed-width integer back, most significant byte
  first.
\<close>

definition bytesToInt :: "byte list \<Rightarrow> 64 word" where
  "bytesToInt bs = foldl (\<lambda>acc b. push_bit 8 acc OR ucast b) 0 bs"

text \<open>
  Modelled from the spec: \<open>timeToBytes\<close> is called by \<open>WriteData\<close> and defined in a file
  that is not among the sources. The spec has the current time written as a fixed-width
  integer of 8 bytes. An instant of the codec is that integer: its count of encoding units
  (nanoseconds of Unix time) in 64 bits.
\<close>

definition timeToBytes :: "64 word \<Rightarrow> byte list" where
  "timeToBytes t = intToBytes t"

text \<open>
  Modelled from the spec: \<open>bytesToTime\<close> is called by \<open>ReadData\<close> and defined in a file
  that is not among the sources. It rebuilds the instant from the 8 bytes of its count.
\<close>

definition bytesToTime :: "byte list \<Rightarrow> 64 word" where
  "bytesToTime bs = bytesToInt bs"

text \<open>\<open>fmt.Errorf\<close> with two \<open>%d\<close> verbs: the decimal rendering of a Go \<open>int\<close>.\<close>

fun show_nat :: "nat \<Rightarrow> string" where
  "show_nat n =
     (if n < 10 then [''0123456789'' ! n]
      else show_nat (n div 10) @ [''0123456789'' ! (n mod 10)])"

declare show_nat.simps [simp del]

definition show_int :: "int \<Rightarrow> string" where
  "show_int i = (if i < 0 then ''-'' @ show_nat (nat (- i)) else show_nat (nat i))"

definition errICMPReplyTooShort :: "int \<Rightarrow> int \<Rightarrow> error" where
  "errICMPReplyTooShort expected actual =
     ErrorString (''reply too short (expected '' @ show_int expected @ ''B; actual ''
                  @ show_int actual @ ''B)'')"

text \<open>
  \<open>ReadData\<close> returns the triple of Go, \<open>(0, time.Unix(0, 0), err)\<close> on failure; the type
  assertion on the body panics when the body is not an echo.
\<close>

definition ReadData ::
  "icmpMessageProvider \<Rightarrow> Message \<Rightarrow> (64 word \<times> 64 word \<times> error option) go" where
  "ReadData p msg =
     (case Body msg of
        OtherBody \<Rightarrow> Panic
      | EchoBody echo \<Rightarrow>
          (let ld = length (Data echo) in
           if ld < timeSize + trackerSize
           then Ret (0, 0, Some (errICMPReplyTooShort (int (timeSize + trackerSize)) (int ld)))
           else
             (let timestamp = bytesToTime (take timeSize (Data echo));
                  tr = bytesToInt (take trackerSize (drop timeSize (Data echo)))
              in Ret (tr, timestamp, None))))"

text \<open>\<open>WriteData\<close> reads the clock once; the reading is the argument \<open>now\<close>.\<close>

definition WriteData :: "icmpMessageProvider \<Rightarrow> 64 word \<Rightarrow> Message \<Rightarrow> Message go" where
  "WriteData p now msg =
     (let data0 = timeToBytes now;
          data1 = data0 @ intToBytes (tracker p);
          ld = int (timeSize + trackerSize) - int (length data1);
          data2 = (if ld > 0 then data1 @ replicate (nat ld) 1 else data1)
      in case Body msg of
           OtherBody \<Rightarrow> Panic
         | EchoBody echo \<Rightarrow> Ret (msg\<lparr>Body := EchoBody (echo\<lparr>Data := data2\<rparr>)\<rparr>))"

text \<open>
  \<open>Provide\<close> runs under the provider's mutex from its first statement to its return: one
  call is one step on the provider, and concurrent calls are some sequence of such steps.
\<close>

definition Provide ::
  "icmpMessageProvider \<Rightarrow> 64 word \<Rightarrow> (Message \<times> icmpMessageProvider) go" where
  "Provide p now =
     (let msg = \<lparr>Type = msgType p, Code = 0,
                 Body = EchoBody \<lparr>ID = id' p, Seq = sint (seq p), Data = []\<rparr>\<rparr>
      in case WriteData p now msg of
           Panic \<Rightarrow> Panic
         | Ret msg' \<Rightarrow> Ret (msg', p\<lparr>seq := seq p + 1\<rparr>))"



section \<open>The protocol handlers\<close>

text \<open>
  \<open>Parse\<close> hands the buffer to \<open>icmp.ParseMessage\<close> with the protocol number of the
  family. The library's parser is a parameter of the driver.
\<close>

type_synonym parser = "nat \<Rightarrow> byte list \<Rightarrow> error + Message"

fun handler_Parse :: "parser \<Rightarrow> icmpProtocolHandler \<Rightarrow> byte list \<Rightarrow> error + Message" where
  "handler_Parse parse icmpIPv4Handler b = parse 1 b"
| "handler_Parse parse icmpIPv6Handler b = parse 58 b"

text \<open>
  What one receive on the socket brings: the bytes of the datagram, the TTL or hop limit of
  its control message when there is one, or an error.
\<close>

record read_outcome =
  rd_payload :: "byte list"
  rd_cm :: "int option"
  rd_err :: "error option"

text \<open>
  The library's \<open>ReadFrom(b)\<close>: it copies the datagram into the front of \<open>b\<close>, as far as
  \<open>b\<close> reaches, and returns the number of bytes copied; on an error it returns 0 and no
  control message.
\<close>

definition ReadFrom ::
  "read_outcome \<Rightarrow> byte list \<Rightarrow> byte list \<times> int \<times> int option \<times> error option" where
  "ReadFrom ro b =
     (case rd_err ro of
        Some e \<Rightarrow> (b, 0, None, Some e)
      | None \<Rightarrow>
          (let n = min (length b) (length (rd_payload ro))
           in (take n (rd_payload ro) @ drop n b, int n, rd_cm ro, None)))"

text \<open>Both handlers read alike; they differ in the field of the control message they take.\<close>

definition handler_Read ::
  "icmpProtocolHandler \<Rightarrow> read_outcome \<Rightarrow> byte list \<times> int \<times> int \<times> error option" where
  "handler_Read h ro =
     (let b = replicate 512 0 in
      case ReadFrom ro b of
        (b', nb, cm, err) \<Rightarrow>
          (let ttl = (case cm of Some t \<Rightarrow> t | None \<Rightarrow> 0) in (b', nb, ttl, err)))"

section \<open>The ICMP driver\<close>

record IPAddr =
  IP :: "byte list"
  Zone :: string

record ICMPConfig =
  Addr :: "IPAddr option"
  ReadTimeout :: int

definition defaultReadTimeout :: int where
  "defaultReadTimeout = 100 * 1000000"

text \<open>
  The driver's context and its channel are the event scripts of the loops below; the
  record holds the other fields. \<open>messageProvider\<close> and \<open>packetConn\<close> are nil until
  \<open>Connect\<close> sets them.
\<close>

record icmpDriver =
  config :: ICMPConfig
  messageProvider :: "icmpMessageProvider option"
  packetConn :: "nat option"
  protocolHandler :: icmpProtocolHandler

definition validateICMPConfig :: "ICMPConfig \<Rightarrow> error option \<times> ICMPConfig" where
  "validateICMPConfig cfg =
     (if Addr cfg = None then (Some ErrNoAddress, cfg)
      else if ReadTimeout cfg = 0 then (None, cfg\<lparr>ReadTimeout := defaultReadTimeout\<rparr>)
      else (None, cfg))"

text \<open>\<open>isIPv4\<close> is not among the sources; it is a parameter.\<close>

definition newProtocolHandler :: "(byte list \<Rightarrow> bool) \<Rightarrow> IPAddr \<Rightarrow> icmpProtocolHandler" where
  "newProtocolHandler isIPv4 addr = (if isIPv4 (IP addr) then icmpIPv4Handler else icmpIPv6Handler)"

definition ICMP :: "(byte list \<Rightarrow> bool) \<Rightarrow> ICMPConfig \<Rightarrow> (error + icmpDriver pinger) go" where
  "ICMP isIPv4 cfg =
     (case validateICMPConfig cfg of
        (Some err, _) \<Rightarrow> Ret (Inl err)
      | (None, cfg') \<Rightarrow>
          (case Addr cfg' of
             None \<Rightarrow> Panic
           | Some addr \<Rightarrow>
               Ret (Inr (New \<lparr>config = cfg', messageProvider = None, packetConn = None,
                               protocolHandler = newProtocolHandler isIPv4 addr\<rparr>))))"

definition icmpDriver_Address :: "icmpDriver \<Rightarrow> IPAddr option" where
  "icmpDriver_Address d = Addr (config d)"


definition RawPacket_zero :: RawPacket where
  "RawPacket_zero = \<lparr>Message = [], Size = 0, TTL = 0\<rparr>"

subsection \<open>The receive task\<close>

record recv_input =
  deadline_err :: "error option"  \<comment> \<open>what \<open>SetReadDeadline\<close> returns\<close>
  read_out :: read_outcome

definition recvPacket :: "icmpDriver \<Rightarrow> recv_input \<Rightarrow> RawPacket \<times> error option" where
  "recvPacket d inp =
     (case deadline_err inp of
        Some err \<Rightarrow> (RawPacket_zero, Some err)
      | None \<Rightarrow>
          (case handler_Read (protocolHandler d) (read_out inp) of
             (b, nb, ttl, err) \<Rightarrow>
               (case err of
                  Some e \<Rightarrow> (RawPacket_zero, Some e)
                | None \<Rightarrow> (\<lparr>Message = b, Size = nb, TTL = ttl\<rparr>, None))))"

text \<open>The type assertion \<open>err.(*net.OpError)\<close> with its \<open>ok\<close>.\<close>

fun asOpError :: "error option \<Rightarrow> (bool \<times> inner_error) option" where
  "asOpError (Some (OpError tmo inner)) = Some (tmo, inner)"
| "asOpError _ = None"

text \<open>
  One element per iteration of the loop: either the context is done, with its error, or it
  is not and the read is attempted. The result is the replies pushed onto the channel, in
  order, and how the task ended: \<open>Some e\<close> when it returned \<open>e\<close>, which closes the channel,
  \<open>None\<close> when it is still in its loop after the last scripted iteration.
\<close>

datatype recv_iter = CtxDone error | Attempt recv_input

fun recv :: "icmpDriver \<Rightarrow> recv_iter list \<Rightarrow> RawPacket list \<times> error option" where
  "recv d [] = ([], None)"
| "recv d (CtxDone e # its) = ([], Some e)"
| "recv d (Attempt inp # its) =
     (case recvPacket d inp of
        (raw, err) \<Rightarrow>
          (case asOpError err of
             Some (tmo, inner) \<Rightarrow>
               if tmo then recv d its else ([], err)
           | None \<Rightarrow>
               (case recv d its of (raws, st) \<Rightarrow> (raw # raws, st))))"

subsection \<open>Handling a reply\<close>

definition isICMPIgnoredPacket :: "error \<Rightarrow> bool" where
  "isICMPIgnoredPacket err = (err = ErrICMPIgnoredPacket)"

definition handlePacket :: "parser \<Rightarrow> icmpDriver \<Rightarrow> RawPacket \<Rightarrow> error option go" where
  "handlePacket parse d raw =
     (case handler_Parse parse (protocolHandler d) (Message raw) of
        Inl err \<Rightarrow> Ret (Some err)
      | Inr msg \<Rightarrow>
          (case Body msg of
             OtherBody \<Rightarrow> Panic
           | EchoBody echo \<Rightarrow>
               if Type msg \<noteq> ReplyType (protocolHandler d) then Ret (Some ErrICMPIgnoredPacket)
               else
                 (case messageProvider d of
                    None \<Rightarrow> Panic
                  | Some mp \<Rightarrow>
                      if ID echo \<noteq> id' mp then Ret (Some ErrICMPIgnoredPacket)
                      else
                        (case ReadData mp msg of
                           Panic \<Rightarrow> Panic
                         | Ret (track, ts, Some err) \<Rightarrow> Ret (Some err)
                         | Ret (track, ts, None) \<Rightarrow>
                             if track \<noteq> tracker mp then Ret (Some ErrICMPIgnoredPacket)
                             else Ret None))))"

text \<open>
  The loop of \<open>Ping\<close> around its \<open>select\<close>. The script lists the cases that fire, in the
  order the scheduler takes them: the context is done (with its error), the send task
  reported an error, or a raw reply came off the channel. \<open>None\<close> is a \<open>Ping\<close> that is still
  blocked after the last scripted event.
\<close>

datatype select_event = CtxDoneEv error | SendErr error | RawReply RawPacket

fun icmpDriver_Ping_wait ::
  "parser \<Rightarrow> icmpDriver \<Rightarrow> select_event list \<Rightarrow> (RawPacket \<times> error option) go option" where
  "icmpDriver_Ping_wait parse d [] = None"
| "icmpDriver_Ping_wait parse d (CtxDoneEv e # evs) = Some (Ret (RawPacket_zero, Some e))"
| "icmpDriver_Ping_wait parse d (SendErr e # evs) = Some (Ret (RawPacket_zero, Some e))"
| "icmpDriver_Ping_wait parse d (RawReply raw # evs) =
     (case handlePacket parse d raw of
        Panic \<Rightarrow> Some Panic
      | Ret (Some err) \<Rightarrow>
          if isICMPIgnoredPacket err then icmpDriver_Ping_wait parse d evs
          else Some (Ret (RawPacket_zero, Some err))
      | Ret None \<Rightarrow> Some (Ret (raw, None)))"

text \<open>The raw replies among the events of a \<open>Ping\<close>.\<close>

fun reply_events :: "select_event list \<Rightarrow> RawPacket list" where
  "reply_events [] = []"
| "reply_events (RawReply raw # evs) = raw # reply_events evs"
| "reply_events (ev # evs) = reply_events evs"

subsection \<open>The send task\<close>

text \<open>
  The world of the send task: a clock that \<open>time.Now()\<close> reads, one reading per call, and
  the record of what the task did, in order. A reading is its 64-bit count of nanoseconds,
  the form in which the codec writes it into the payload.
\<close>

datatype effect = Now "64 word" | WriteTo "byte list" "IPAddr option" "error option"

record world =
  clock :: "nat \<Rightarrow> 64 word"
  tick :: nat
  trace :: "effect list"

definition time_Now :: "world \<Rightarrow> 64 word \<times> world" where
  "time_Now w = (clock w (tick w), w\<lparr>tick := tick w + 1, trace := trace w @ [Now (clock w (tick w))]\<rparr>)"

definition conn_WriteTo :: "byte list \<Rightarrow> IPAddr option \<Rightarrow> error option \<Rightarrow> world \<Rightarrow> world" where
  "conn_WriteTo bs addr out w = w\<lparr>trace := trace w @ [WriteTo bs addr out]\<rparr>"

text \<open>The test \<open>ok && netErr.Err == syscall.ENOBUFS\<close>.\<close>

fun isENOBUFS :: "error \<Rightarrow> bool" where
  "isENOBUFS (OpError tmo ENOBUFS) = True"
| "isENOBUFS _ = False"

text \<open>
  The write loop, over what the successive calls of \<open>WriteTo\<close> return. \<open>None\<close> is a loop
  that is still retrying after the last scripted call.
\<close>

fun write_loop ::
  "byte list \<Rightarrow> IPAddr option \<Rightarrow> error option list \<Rightarrow> 64 word Timer \<Rightarrow> world
     \<Rightarrow> error option option \<times> 64 word Timer \<times> world" where
  "write_loop bs addr [] timer w = (None, timer, w)"
| "write_loop bs addr (out # outs) timer w =
     (let w1 = conn_WriteTo bs addr out w in
      case out of
        Some err \<Rightarrow>
          if isENOBUFS err then write_loop bs addr outs timer w1
          else (Some (Some err), timer, w1)
      | None \<Rightarrow>
          (case time_Now w1 of
             (now, w2) \<Rightarrow> (Some None, Timer_Stop now timer, w2)))"

text \<open>\<open>send\<close>; \<open>marshal\<close> is the library's \<open>Message.Marshal\<close>.\<close>

definition send ::
  "(Message \<Rightarrow> error + byte list) \<Rightarrow> icmpDriver \<Rightarrow> error option list \<Rightarrow> 64 word Timer \<Rightarrow> world
     \<Rightarrow> (error option option \<times> 64 word Timer \<times> icmpDriver \<times> world) go" where
  "send marshal d outs timer w =
     (case messageProvider d of
        None \<Rightarrow> Panic
      | Some mp \<Rightarrow>
          (case time_Now w of
             (now0, w0) \<Rightarrow>
               (case Provide mp now0 of
                  Panic \<Rightarrow> Panic
                | Ret (msg, mp') \<Rightarrow>
                    (let d' = d\<lparr>messageProvider := Some mp'\<rparr> in
                     case marshal msg of
                       Inl err \<Rightarrow> Ret (Some (Some err), timer, d', w0)
                     | Inr msgBytes \<Rightarrow>
                         (case time_Now w0 of
                            (now1, w1) \<Rightarrow>
                              (case write_loop msgBytes (Addr (config d)) outs
                                      (Timer_Start now1 timer) w1 of
                                 (res, timer', w') \<Rightarrow> Ret (res, timer', d', w')))))))"

subsection \<open>Inputs to run the driver on\<close>

text \<open>
  \<open>icmp.ParseMessage\<close> of golang.org/x/net as far as the driver looks at its result: the
  type and code of the header, and an echo body (identifier, sequence number, payload) for
  the echo types of either family; any other type has a body of another kind. The types
  the library has a body parser for (echo, extended echo, destination unreachable, packet
  too big, time exceeded, parameter problem) need 4 bytes after the header; the checks the
  library makes on the extensions of an extended echo are left out. The theorems on the
  driver hold for every parser; this one runs them on datagrams.
\<close>

definition parsed_types :: "icmp_Type list" where
  "parsed_types =
     [ICMPv4Type 3, ICMPv4Type 11, ICMPv4Type 12, ICMPv4Type 0, ICMPv4Type 8,
      ICMPv4Type 42, ICMPv4Type 43,
      ICMPv6Type 1, ICMPv6Type 2, ICMPv6Type 3, ICMPv6Type 4, ICMPv6Type 128, ICMPv6Type 129,
      ICMPv6Type 160, ICMPv6Type 161]"

definition ParseMessage :: parser where
  "ParseMessage proto b =
     (if length b < 4 then Inl (ErrorString ''message too short'')
      else if proto \<noteq> 1 \<and> proto \<noteq> 58 then Inl (ErrorString ''invalid protocol'')
      else
        (let ty = (if proto = 1 then ICMPv4Type (unat (b ! 0)) else ICMPv6Type (unat (b ! 0)));
             body = drop 4 b
         in if List.member parsed_types ty \<and> length body < 4
            then Inl (ErrorString ''message too short'')
            else if ty = ICMPv4Type 0 \<or> ty = ICMPv4Type 8 \<or> ty = ICMPv6Type 128
                    \<or> ty = ICMPv6Type 129
            then Inr \<lparr>Type = ty, Code = uint (b ! 1),
                      Body = EchoBody \<lparr>ID = uint (body ! 0) * 256 + uint (body ! 1),
                                       Seq = uint (body ! 2) * 256 + uint (body ! 3),
                                       Data = drop 4 body\<rparr>\<rparr>
            else Inr \<lparr>Type = ty, Code = uint (b ! 1), Body = OtherBody\<rparr>))"

definition sample_driver :: icmpDriver where
  "sample_driver =
     \<lparr>config = \<lparr>Addr = Some \<lparr>IP = [127, 0, 0, 1], Zone = []\<rparr>, ReadTimeout = defaultReadTimeout\<rparr>,
      messageProvider = Some (newICMPMessageProvider icmpIPv4Handler 77 5),
      packetConn = Some 3,
      protocolHandler = icmpIPv4Handler\<rparr>"

definition sample_world :: world where
  "sample_world = \<lparr>clock = (\<lambda>n. 1000 + 10 * of_nat n), tick = 0, trace = []\<rparr>"

text \<open>
  An echo reply for \<open>sample_driver\<close>: type 0, code 0, checksum, identifier 77, sequence 0,
  the 8 bytes of the instant 9 and the 8 bytes of the tracker 5.
\<close>

definition sample_reply :: "byte list" where
  "sample_reply = [0, 0, 0, 0, 0, 77, 0, 0,  0, 0, 0, 0, 0, 0, 0, 9,  0, 0, 0, 0, 0, 0, 0, 5]"

section \<open>Connection state of the Pinger\<close>

text \<open>
  C2. Connect on a connected Pinger returns AlreadyConnected and leaves the whole Pinger,
  its flag and the driver's state, as it was: the driver is not called. Disconnect on a
  Pinger that is not connected returns NotConnected likewise. In the legal state the call
  is handed to the driver, its error is returned, and the flag flips exactly when the driver
  returned no error. Since the statement holds in every state, it holds at every step of
  every operation sequence.
\<close>

theorem pinger_connect_disconnect_state:
  "(connected p \<longrightarrow> pinger_Connect D ctx p = (Some ErrAlreadyConnected, p)) \<and>
   (\<not> connected p \<longrightarrow> pinger_Disconnect D p = (Some ErrNotConnected, p)) \<and>
   (\<not> connected p \<longrightarrow>
      fst (pinger_Connect D ctx p) = fst (drv_Connect D ctx (driver p)) \<and>
      driver (snd (pinger_Connect D ctx p)) = snd (drv_Connect D ctx (driver p)) \<and>
      connected (snd (pinger_Connect D ctx p)) = (fst (drv_Connect D ctx (driver p)) = None)) \<and>
   (connected p \<longrightarrow>
      fst (pinger_Disconnect D p) = fst (drv_Disconnect D (driver p)) \<and>
      driver (snd (pinger_Disconnect D p)) = snd (drv_Disconnect D (driver p)) \<and>
      connected (snd (pinger_Disconnect D p)) = (fst (drv_Disconnect D (driver p)) \<noteq> None))"
  by (simp add: pinger_Connect_def pinger_Disconnect_def split: prod.splits)

theorem pinger_connect_disconnect_state_witness:
  "pinger_Connect (counting_driver True) () \<lparr>connected = True, driver = 5\<rparr>
     = (Some ErrAlreadyConnected, \<lparr>connected = True, driver = 5\<rparr>) \<and>
   pinger_Disconnect (counting_driver True) \<lparr>connected = False, driver = 5\<rparr>
     = (Some ErrNotConnected, \<lparr>connected = False, driver = 5\<rparr>) \<and>
   pinger_Connect (counting_driver True) () \<lparr>connected = False, driver = 5\<rparr>
     = (None, \<lparr>connected = True, driver = 6\<rparr>) \<and>
   pinger_Connect (counting_driver False) () \<lparr>connected = False, driver = 5\<rparr>
     = (Some (ErrorString ''listen failed''), \<lparr>connected = False, driver = 6\<rparr>) \<and>
   pinger_Disconnect (counting_driver True) \<lparr>connected = True, driver = 5\<rparr>
     = (None, \<lparr>connected = False, driver = 6\<rparr>) \<and>
   pinger_Disconnect (counting_driver False) \<lparr>connected = True, driver = 5\<rparr>
     = (Some (ErrorString ''close failed''), \<lparr>connected = True, driver = 6\<rparr>)"
  using
    pinger_connect_disconnect_state
      [of "\<lparr>connected = True, driver = 5\<rparr>" "counting_driver True" "()"]
    pinger_connect_disconnect_state
      [of "\<lparr>connected = False, driver = 5\<rparr>" "counting_driver True" "()"]
    pinger_connect_disconnect_state
      [of "\<lparr>connected = False, driver = 5\<rparr>" "counting_driver False" "()"]
    pinger_connect_disconnect_state
      [of "\<lparr>connected = True, driver = 5\<rparr>" "counting_driver False" "()"]
  by (simp add: pinger_Connect_def pinger_Disconnect_def counting_driver_def)


section \<open>The packet assembled by the Pinger\<close>

text \<open>
  C4, as stated, fails where the difference of the two stamps is more than a duration
  holds: \<open>RTT\<close> is then the bound of the duration, not \<open>e - s\<close>. Here the probe returns
  its reply with the timer started (at an instant of the year 2026) and not stopped, so
  that \<open>Stopped\<close> is still the zero instant: \<open>e - s\<close> is -63929030689159532520, and the
  packet's \<open>RTT\<close> is -9223372036854775808.
\<close>

theorem pinger_Ping_RTT_counterexample:
  "drv_Ping (stamping_driver 1793433889159532520 Time_zero) 0
       \<lparr>Started = Time_zero, Stopped = Time_zero\<rparr>
     = ((\<lparr>Message = [1, 2, 3], Size = 3, TTL = 64\<rparr>, None),
        \<lparr>Started = 1793433889159532520, Stopped = - 62135596800000000000\<rparr>, 0) \<and>
   pinger_Ping (stamping_driver 1793433889159532520 Time_zero) \<lparr>connected = True, driver = 0\<rparr>
     = (Inr \<lparr>packetMeta = \<lparr>Address = ''127.0.0.1''\<rparr>,
             rawPacket = \<lparr>Message = [1, 2, 3], Size = 3, TTL = 64\<rparr>,
             timedPacket = \<lparr>RTT = - 9223372036854775808, Sent = 1793433889159532520\<rparr>\<rparr>,
        \<lparr>connected = True, driver = 0\<rparr>) \<and>
   (- 62135596800000000000) - 1793433889159532520 = (- 63929030689159532520 :: int) \<and>
   (- 9223372036854775808 :: int) \<noteq> (- 62135596800000000000) - 1793433889159532520"
  by (simp add: pinger_Ping_def stamping_driver_def Timer_Elapsed_def Time_Sub_def Time_zero_def
      minDuration_def maxDuration_def)

lemma Time_Sub_clamp: "Time_Sub t u = max (- (2 ^ 63)) (min (2 ^ 63 - 1) (t - u))"
  by (simp add: Time_Sub_def minDuration_def maxDuration_def)

text \<open>
  C4, amended. When the driver's probe succeeds with raw response \<open>r\<close> and leaves the timer
  stamped with start \<open>s\<close> and stop \<open>e\<close>, \<open>Ping\<close> returns a packet whose raw part is \<open>r\<close>,
  whose address is the one the driver reports, whose \<open>Sent\<close> is \<open>s\<close> and whose \<open>RTT\<close> is
  what \<open>Time.Sub\<close> returns: \<open>e - s\<close> when it lies between the smallest and the largest
  duration, \<open>-2^63\<close> and \<open>2^63 - 1\<close> nanoseconds, and the nearer of the two otherwise. When
  the probe fails with \<open>err\<close>, \<open>Ping\<close> returns \<open>err\<close>, and the Pinger is left as the
  driver's call left it: the flag is untouched and no other driver method has run.
\<close>

theorem pinger_Ping_packet:
  "(drv_Ping D (driver p) \<lparr>Started = Time_zero, Stopped = Time_zero\<rparr>
      = ((r, None), \<lparr>Started = s, Stopped = e\<rparr>, d') \<longrightarrow>
    pinger_Ping D p =
      (Inr \<lparr>packetMeta = \<lparr>Address = drv_Address D d'\<rparr>,
            rawPacket = r,
            timedPacket = \<lparr>RTT = max (- (2 ^ 63)) (min (2 ^ 63 - 1) (e - s)), Sent = s\<rparr>\<rparr>,
       p\<lparr>driver := d'\<rparr>)) \<and>
   (drv_Ping D (driver p) \<lparr>Started = Time_zero, Stopped = Time_zero\<rparr>
      = ((r, Some err), tm, d') \<longrightarrow>
    pinger_Ping D p = (Inl err, p\<lparr>driver := d'\<rparr>))"
  by (simp add: pinger_Ping_def Timer_Elapsed_def Time_Sub_clamp)

theorem pinger_Ping_packet_witness:
  "pinger_Ping (counting_driver True) \<lparr>connected = True, driver = 7\<rparr> =
     (Inr \<lparr>packetMeta = \<lparr>Address = ''127.0.0.1''\<rparr>,
           rawPacket = \<lparr>Message = [1, 2, 3], Size = 3, TTL = 64\<rparr>,
           timedPacket = \<lparr>RTT = 250, Sent = 1000\<rparr>\<rparr>,
      \<lparr>connected = True, driver = 8\<rparr>) \<and>
   pinger_Ping (stamping_driver Time_zero 1793433889159532520) \<lparr>connected = True, driver = 7\<rparr> =
     (Inr \<lparr>packetMeta = \<lparr>Address = ''127.0.0.1''\<rparr>,
           rawPacket = \<lparr>Message = [1, 2, 3], Size = 3, TTL = 64\<rparr>,
           timedPacket = \<lparr>RTT = 9223372036854775807, Sent = - 62135596800000000000\<rparr>\<rparr>,
      \<lparr>connected = True, driver = 7\<rparr>) \<and>
   pinger_Ping (counting_driver False) \<lparr>connected = True, driver = 7\<rparr> =
     (Inl (ErrorString ''no route''), \<lparr>connected = True, driver = 8\<rparr>)"
  using
    pinger_Ping_packet
      [where D = "counting_driver True" and p = "\<lparr>connected = True, driver = 7\<rparr>"
         and r = "\<lparr>Message = [1, 2, 3], Size = 3, TTL = 64\<rparr>" and s = 1000 and e = 1250
         and d' = 8]
    pinger_Ping_packet
      [where D = "stamping_driver Time_zero 1793433889159532520"
         and p = "\<lparr>connected = True, driver = 7\<rparr>"
         and r = "\<lparr>Message = [1, 2, 3], Size = 3, TTL = 64\<rparr>"
         and s = "- 62135596800000000000" and e = 1793433889159532520 and d' = 7]
    pinger_Ping_packet
      [where D = "counting_driver False" and p = "\<lparr>connected = True, driver = 7\<rparr>"
         and r = "\<lparr>Message = [], Size = 0, TTL = 0\<rparr>"
         and err = "ErrorString ''no route''"
         and tm = "\<lparr>Started = Time_zero, Stopped = Time_zero\<rparr>" and d' = 8]
  by (simp add: counting_driver_def stamping_driver_def Time_zero_def)

section \<open>The correlation payload\<close>

lemma upt_8: "[0..<8] = [0, 1, 2, 3, 4, 5, 6, 7 :: nat]"
  by (simp add: upt_rec)

lemma length_intToBytes: "length (intToBytes w) = 8"
  by (simp add: intToBytes_def)

lemma byte_step:
  "push_bit 8 (drop_bit (8 + m) w) OR ucast (ucast (drop_bit m w) :: byte)
     = drop_bit m (w :: 64 word)"
proof (rule bit_word_eqI)
  fix n assume n: "n < LENGTH(64)"
  show "bit (push_bit 8 (drop_bit (8 + m) w) OR ucast (ucast (drop_bit m w) :: byte)) n
          = bit (drop_bit m w) n"
  proof (cases "n < 8")
    case True
    then show ?thesis by (simp add: bit_simps)
  next
    case False
    then have "n - 8 + (8 + m) = n + m" by simp
    with False n show ?thesis by (simp add: bit_simps add.commute)
  qed
qed

lemma byte_top: "ucast (ucast (drop_bit 56 w) :: byte) = drop_bit 56 (w :: 64 word)"
proof (rule bit_word_eqI)
  fix n assume "n < LENGTH(64)"
  have "bit w (56 + n) \<Longrightarrow> n < 8"
    using bit_imp_le_length [of w "56 + n"] by simp
  then show "bit (ucast (ucast (drop_bit 56 w) :: byte) :: 64 word) n = bit (drop_bit 56 w) n"
    by (auto simp add: bit_simps)
qed

lemma bytesToInt_intToBytes: "bytesToInt (intToBytes w) = w"
proof -
  have s: "\<And>m. push_bit 8 (drop_bit (8 + m) w) OR ucast (ucast (drop_bit m w) :: byte)
                = drop_bit m w"
    by (rule byte_step)
  show ?thesis
    unfolding intToBytes_def bytesToInt_def upt_8
    using s[of 48] s[of 40] s[of 32] s[of 24] s[of 16] s[of 8] s[of 0] byte_top[of w]
    by simp
qed

lemma WriteData_echo:
  "WriteData p now (msg\<lparr>Body := EchoBody echo\<rparr>) =
     Ret (msg\<lparr>Body := EchoBody (echo\<lparr>Data := timeToBytes now @ intToBytes (tracker p)\<rparr>)\<rparr>)"
  by (simp add: WriteData_def timeToBytes_def length_intToBytes timeSize_def trackerSize_def)

lemma ReadData_payload:
  "ReadData q (m\<lparr>Body := EchoBody (echo\<lparr>Data := timeToBytes t @ intToBytes tr @ extra\<rparr>)\<rparr>)
     = Ret (tr, t, None)"
  by (simp add: ReadData_def timeToBytes_def bytesToTime_def length_intToBytes
      timeSize_def trackerSize_def bytesToInt_intToBytes)

text \<open>
  C5. \<open>WriteData\<close> stores the 8 bytes of the instant followed by the 8 bytes of the
  provider's tracker, 16 bytes and no filler. \<open>ReadData\<close> on an echo whose payload is these
  16 bytes, followed by any further bytes, returns the same tracker and the same instant
  (so within one encoding unit of it) and no error.
\<close>

theorem correlation_payload_roundtrip:
  "WriteData p t (msg\<lparr>Body := EchoBody echo\<rparr>) =
     Ret (msg\<lparr>Body := EchoBody (echo\<lparr>Data := timeToBytes t @ intToBytes (tracker p)\<rparr>)\<rparr>) \<and>
   length (timeToBytes t @ intToBytes (tracker p)) = 16 \<and>
   ReadData q
     (m\<lparr>Body := EchoBody (echo'\<lparr>Data := (timeToBytes t @ intToBytes (tracker p)) @ extra\<rparr>)\<rparr>)
     = Ret (tracker p, t, None)"
proof -
  have "length (timeToBytes t @ intToBytes (tracker p)) = 16"
    by (simp add: timeToBytes_def length_intToBytes)
  moreover have "ReadData q
      (m\<lparr>Body := EchoBody (echo'\<lparr>Data := (timeToBytes t @ intToBytes (tracker p)) @ extra\<rparr>)\<rparr>)
      = Ret (tracker p, t, None)"
    using ReadData_payload [where tr = "tracker p"] by simp
  ultimately show ?thesis
    using WriteData_echo by blast
qed


section \<open>Replies that are too short\<close>

text \<open>
  C6. For an echo message with a payload of \<open>L\<close> bytes, \<open>ReadData\<close> returns an error
  exactly when \<open>L < timeSize + trackerSize = 16\<close>; the error is then the one
  \<open>errICMPReplyTooShort\<close> builds from \<open>16\<close> and \<open>L\<close>, whose message names both counts.
  For \<open>L \<ge> 16\<close> it returns no error.
\<close>

theorem ReadData_too_short:
  "timeSize + trackerSize = 16 \<and>
   ((\<exists>tr ts e. ReadData p (msg\<lparr>Body := EchoBody echo\<rparr>) = Ret (tr, ts, Some e))
      \<longleftrightarrow> length (Data echo) < 16) \<and>
   (length (Data echo) < 16 \<longrightarrow>
      ReadData p (msg\<lparr>Body := EchoBody echo\<rparr>)
        = Ret (0, 0, Some (errICMPReplyTooShort 16 (int (length (Data echo))))) \<and>
      errICMPReplyTooShort 16 (int (length (Data echo)))
        = ErrorString (''reply too short (expected 16B; actual ''
                       @ show_nat (length (Data echo)) @ ''B)'')) \<and>
   (16 \<le> length (Data echo) \<longrightarrow>
      (\<exists>tr ts. ReadData p (msg\<lparr>Body := EchoBody echo\<rparr>) = Ret (tr, ts, None)))"
proof -
  have "show_nat 16 = ''16''"
    by (simp add: show_nat.simps)
  then have "errICMPReplyTooShort 16 (int (length (Data echo)))
        = ErrorString (''reply too short (expected 16B; actual ''
                       @ show_nat (length (Data echo)) @ ''B)'')"
    by (simp add: errICMPReplyTooShort_def show_int_def)
  then show ?thesis
    by (simp add: ReadData_def timeSize_def trackerSize_def Let_def)
qed

theorem ReadData_too_short_witness:
  "ReadData (newICMPMessageProvider icmpIPv4Handler 77 5)
     \<lparr>Type = ICMPv4Type 0, Code = 0, Body = EchoBody \<lparr>ID = 77, Seq = 0, Data = [1, 2, 3]\<rparr>\<rparr>
     = Ret (0, 0, Some (ErrorString ''reply too short (expected 16B; actual 3B)'')) \<and>
   ReadData (newICMPMessageProvider icmpIPv4Handler 77 5)
     \<lparr>Type = ICMPv4Type 0, Code = 0,
      Body = EchoBody \<lparr>ID = 77, Seq = 0, Data = [0, 0, 0, 0, 0, 0, 0, 9, 0, 0, 0, 0, 0, 0, 0, 5]\<rparr>\<rparr>
     = Ret (5, 9, None)"
proof -
  have a: "show_nat (Suc (Suc (Suc 0))) = ''3''"
    by (simp add: show_nat.simps)
  have b: "ReadData (newICMPMessageProvider icmpIPv4Handler 77 5)
     \<lparr>Type = ICMPv4Type 0, Code = 0,
      Body = EchoBody \<lparr>ID = 77, Seq = 0, Data = [0, 0, 0, 0, 0, 0, 0, 9, 0, 0, 0, 0, 0, 0, 0, 5]\<rparr>\<rparr>
     = Ret (5, 9, None)"
    by (simp add: ReadData_def timeSize_def trackerSize_def bytesToTime_def bytesToInt_def)
  show ?thesis
    using a b
      ReadData_too_short
        [where p = "newICMPMessageProvider icmpIPv4Handler 77 5"
           and msg = "\<lparr>Type = ICMPv4Type 0, Code = 0, Body = OtherBody\<rparr>"
           and echo = "\<lparr>ID = 77, Seq = 0, Data = [1, 2, 3]\<rparr>"]
    by simp
qed

section \<open>Sequence numbers\<close>




lemma Provide_Ret:
  "Provide p now =
     Ret (\<lparr>Type = msgType p, Code = 0,
           Body = EchoBody \<lparr>ID = id' p, Seq = sint (seq p),
                            Data = timeToBytes now @ intToBytes (tracker p)\<rparr>\<rparr>,
          p\<lparr>seq := seq p + 1\<rparr>)"
proof -
  have "WriteData p now
          (\<lparr>Type = msgType p, Code = 0, Body = OtherBody\<rparr>
             \<lparr>Body := EchoBody \<lparr>ID = id' p, Seq = sint (seq p), Data = []\<rparr>\<rparr>)
        = Ret (\<lparr>Type = msgType p, Code = 0, Body = OtherBody\<rparr>
                 \<lparr>Body := EchoBody (\<lparr>ID = id' p, Seq = sint (seq p), Data = []\<rparr>
                     \<lparr>Data := timeToBytes now @ intToBytes (tracker p)\<rparr>)\<rparr>)"
    by (rule WriteData_echo)
  then show ?thesis
    by (simp add: Provide_def)
qed





section \<open>Construction of the ICMP pinger\<close>

text \<open>
  C9. With no address, \<open>validateICMPConfig\<close> returns NoAddress and \<open>ICMP\<close> returns that
  error and no Pinger: no driver is built, and \<open>ICMP\<close> opens no socket in any case (only
  \<open>Connect\<close> does). With an address, the driver is built over the validated configuration:
  a read timeout of zero has become 100ms (100000000 nanoseconds), any other is kept.
\<close>

theorem ICMP_config:
  "(Addr cfg = None \<longrightarrow>
      validateICMPConfig cfg = (Some ErrNoAddress, cfg) \<and>
      ICMP isIPv4 cfg = Ret (Inl ErrNoAddress)) \<and>
   (Addr cfg = Some a \<longrightarrow>
      ICMP isIPv4 cfg =
        Ret (Inr (New \<lparr>config = cfg\<lparr>ReadTimeout :=
                                      (if ReadTimeout cfg = 0 then 100000000 else ReadTimeout cfg)\<rparr>,
                         messageProvider = None, packetConn = None,
                         protocolHandler = newProtocolHandler isIPv4 a\<rparr>)))"
  by (simp add: ICMP_def validateICMPConfig_def defaultReadTimeout_def)

theorem ICMP_config_witness:
  "ICMP (\<lambda>ip. length ip = 4) \<lparr>Addr = None, ReadTimeout = 5\<rparr> = Ret (Inl ErrNoAddress) \<and>
   ICMP (\<lambda>ip. length ip = 4) \<lparr>Addr = Some \<lparr>IP = [127, 0, 0, 1], Zone = []\<rparr>, ReadTimeout = 0\<rparr> =
     Ret (Inr \<lparr>connected = False,
               driver = \<lparr>config = \<lparr>Addr = Some \<lparr>IP = [127, 0, 0, 1], Zone = []\<rparr>,
                                   ReadTimeout = 100000000\<rparr>,
                         messageProvider = None, packetConn = None,
                         protocolHandler = icmpIPv4Handler\<rparr>\<rparr>) \<and>
   ICMP (\<lambda>ip. length ip = 4) \<lparr>Addr = Some \<lparr>IP = [127, 0, 0, 1], Zone = []\<rparr>, ReadTimeout = 250\<rparr> =
     Ret (Inr \<lparr>connected = False,
               driver = \<lparr>config = \<lparr>Addr = Some \<lparr>IP = [127, 0, 0, 1], Zone = []\<rparr>,
                                   ReadTimeout = 250\<rparr>,
                         messageProvider = None, packetConn = None,
                         protocolHandler = icmpIPv4Handler\<rparr>\<rparr>)"
  using
    ICMP_config [of "\<lparr>Addr = None, ReadTimeout = 5\<rparr>" "\<lambda>ip. length ip = 4"]
    ICMP_config [of "\<lparr>Addr = Some \<lparr>IP = [127, 0, 0, 1], Zone = []\<rparr>, ReadTimeout = 0\<rparr>"
                    "\<lambda>ip. length ip = 4" "\<lparr>IP = [127, 0, 0, 1], Zone = []\<rparr>"]
    ICMP_config [of "\<lparr>Addr = Some \<lparr>IP = [127, 0, 0, 1], Zone = []\<rparr>, ReadTimeout = 250\<rparr>"
                    "\<lambda>ip. length ip = 4" "\<lparr>IP = [127, 0, 0, 1], Zone = []\<rparr>"]
  by (simp add: New_def newProtocolHandler_def)

section \<open>The receive task and read errors\<close>

text \<open>
  An error that is a \<open>*net.OpError\<close> is handled as the receive task intends: a timeout
  goes round the loop and pushes nothing, any other ends the task, which closes the channel.
\<close>

lemma recv_timeout:
  "recvPacket d inp = (raw, Some (OpError True inner)) \<Longrightarrow> recv d (Attempt inp # its) = recv d its"
  by simp

lemma recv_fatal:
  "recvPacket d inp = (raw, Some (OpError False inner)) \<Longrightarrow>
     recv d (Attempt inp # its) = ([], Some (OpError False inner))"
  by simp

lemma recv_other_error:
  "recvPacket d inp = (raw, Some e) \<Longrightarrow> asOpError (Some e) = None \<Longrightarrow>
     recv d (Attempt inp # its) = (raw # fst (recv d its), snd (recv d its))"
  by (simp split: prod.splits)

text \<open>
  C3. The claim fails on the code for a read error that is not a \<open>*net.OpError\<close>: the
  type assertion in \<open>recv\<close> fails, the error is dropped, and the zero \<open>RawPacket\<close> that
  \<open>recvPacket\<close> returned with it is pushed onto the channel as a reply; the task stays in
  its loop (here until the context is done) and the channel stays open.
\<close>

theorem recv_plain_error_delivers:
  "recv sample_driver
     [Attempt \<lparr>deadline_err = None,
               read_out = \<lparr>rd_payload = [], rd_cm = None,
                           rd_err = Some (ErrorString ''invalid connection'')\<rparr>\<rparr>,
      CtxDone (ErrorString ''context canceled'')]
   = ([RawPacket_zero], Some (ErrorString ''context canceled''))"
  by (simp add: recvPacket_def handler_Read_def ReadFrom_def)

section \<open>Correlation of replies\<close>

text \<open>
  For a reply that parses to a message with an echo body, \<open>Ping\<close> does what it intends: a
  wrong type, identifier or tracker discards the reply and the wait goes on with the
  remaining events; a parse error ends the probe; a reply that is returned was accepted by
  \<open>handlePacket\<close>, so its type, identifier and tracker match.
\<close>

lemma handlePacket_parse_error:
  "handler_Parse parse (protocolHandler d) (Message raw) = Inl err \<Longrightarrow>
   handlePacket parse d raw = Ret (Some err)"
  by (simp add: handlePacket_def)

lemma Ping_wait_parse_error:
  "handler_Parse parse (protocolHandler d) (Message raw) = Inl err \<Longrightarrow>
   err \<noteq> ErrICMPIgnoredPacket \<Longrightarrow>
   icmpDriver_Ping_wait parse d (RawReply raw # evs) = Some (Ret (RawPacket_zero, Some err))"
  by (simp add: handlePacket_def isICMPIgnoredPacket_def)

lemma handlePacket_echo_mismatch:
  assumes "handler_Parse parse (protocolHandler d) (Message raw) = Inr msg"
    and "Body msg = EchoBody echo"
    and "messageProvider d = Some mp"
    and "Type msg \<noteq> ReplyType (protocolHandler d) \<or> ID echo \<noteq> id' mp \<or>
         (\<exists>tr ts. ReadData mp msg = Ret (tr, ts, None) \<and> tr \<noteq> tracker mp)"
  shows "handlePacket parse d raw = Ret (Some ErrICMPIgnoredPacket)"
  using assms by (auto simp add: handlePacket_def)

lemma Ping_wait_echo_mismatch_discarded:
  assumes "handler_Parse parse (protocolHandler d) (Message raw) = Inr msg"
    and "Body msg = EchoBody echo"
    and "messageProvider d = Some mp"
    and "Type msg \<noteq> ReplyType (protocolHandler d) \<or> ID echo \<noteq> id' mp \<or>
         (\<exists>tr ts. ReadData mp msg = Ret (tr, ts, None) \<and> tr \<noteq> tracker mp)"
  shows "icmpDriver_Ping_wait parse d (RawReply raw # evs) = icmpDriver_Ping_wait parse d evs"
  using handlePacket_echo_mismatch [OF assms] by (simp add: isICMPIgnoredPacket_def)

lemma handlePacket_accepts:
  assumes "handlePacket parse d raw = Ret None"
  shows "\<exists>msg echo mp ts.
           handler_Parse parse (protocolHandler d) (Message raw) = Inr msg \<and>
           Body msg = EchoBody echo \<and> messageProvider d = Some mp \<and>
           Type msg = ReplyType (protocolHandler d) \<and> ID echo = id' mp \<and>
           ReadData mp msg = Ret (tracker mp, ts, None)"
  using assms
  by (auto simp add: handlePacket_def
      split: sum.splits MessageBody.splits option.splits if_splits go.splits prod.splits)

lemma Ping_wait_returns_accepted:
  "icmpDriver_Ping_wait parse d evs = Some (Ret (raw, None)) \<Longrightarrow>
   RawReply raw \<in> set evs \<and> handlePacket parse d raw = Ret None"
proof (induction evs)
  case Nil
  then show ?case by simp
next
  case (Cons ev evs)
  then show ?case
    by (cases ev) (auto split: go.splits option.splits if_splits)
qed

lemma Ping_wait_non_echo_body_panics:
  "handler_Parse parse (protocolHandler d) (Message raw) = Inr msg \<Longrightarrow>
   Body msg = OtherBody \<Longrightarrow>
   icmpDriver_Ping_wait parse d (RawReply raw # evs) = Some Panic"
  by (simp add: handlePacket_def)

text \<open>
  C1. The claim fails on the code for a reply whose type is not the echo-reply type and
  whose body is not an echo: \<open>handlePacket\<close> asserts the body to be \<open>*icmp.Echo\<close> before
  it looks at the type, and the assertion panics. Here the reply is an ICMPv4
  destination-unreachable message (type 3, code 1): it parses, and \<open>Ping\<close> panics
  instead of discarding it and waiting on for the matching reply that follows.
\<close>

theorem Ping_wait_destination_unreachable:
  "ParseMessage 1 ([3, 1, 252, 254, 0, 0, 0, 0] @ replicate 504 0)
     = Inr \<lparr>Type = ICMPv4Type 3, Code = 1, Body = OtherBody\<rparr> \<and>
   icmpDriver_Ping_wait ParseMessage sample_driver
     [RawReply \<lparr>Message = [3, 1, 252, 254, 0, 0, 0, 0] @ replicate 504 0, Size = 36, TTL = 64\<rparr>,
      RawReply \<lparr>Message = sample_reply @ replicate 488 0, Size = 24, TTL = 64\<rparr>]
   = Some Panic"
  by (simp add: handlePacket_def ParseMessage_def sample_driver_def)

section \<open>The send task\<close>

lemma write_loop_retries:
  "write_loop bs addr (map (\<lambda>t. Some (OpError t ENOBUFS)) ts @ outs) timer w =
     write_loop bs addr outs timer
       (w\<lparr>trace := trace w @ map (\<lambda>t. WriteTo bs addr (Some (OpError t ENOBUFS))) ts\<rparr>)"
proof (induction ts arbitrary: w)
  case Nil
  show ?case by simp
next
  case (Cons t ts)
  show ?case
    using Cons.IH [of "conn_WriteTo bs addr (Some (OpError t ENOBUFS)) w"]
    by (simp add: conn_WriteTo_def)
qed

lemma send_unfold:
  assumes "messageProvider d = Some mp"
  shows "send marshal d outs timer w =
     (case marshal \<lparr>Type = msgType mp, Code = 0,
                    Body = EchoBody \<lparr>ID = id' mp, Seq = sint (seq mp),
                             Data = timeToBytes (clock w (tick w)) @ intToBytes (tracker mp)\<rparr>\<rparr> of
        Inl err \<Rightarrow>
          Ret (Some (Some err), timer, d\<lparr>messageProvider := Some (mp\<lparr>seq := seq mp + 1\<rparr>)\<rparr>,
               w\<lparr>tick := tick w + 1, trace := trace w @ [Now (clock w (tick w))]\<rparr>)
      | Inr bs \<Rightarrow>
          (case write_loop bs (Addr (config d)) outs (timer\<lparr>Started := clock w (tick w + 1)\<rparr>)
                  (w\<lparr>tick := tick w + 2,
                     trace := trace w @ [Now (clock w (tick w)), Now (clock w (tick w + 1))]\<rparr>) of
             (res, timer', w') \<Rightarrow>
               Ret (res, timer', d\<lparr>messageProvider := Some (mp\<lparr>seq := seq mp + 1\<rparr>)\<rparr>, w')))"
  using assms
  by (simp add: send_def time_Now_def Provide_Ret Timer_Start_def split: sum.splits)

text \<open>
  C7. On a connected driver the send task reads the clock for the payload and takes the
  next request from the provider, whose sequence number goes up by one. If marshalling
  fails, it returns that error: the timer is untouched and nothing is written. Otherwise it
  starts the timer and then writes; every write that fails with a \<open>*net.OpError\<close> whose
  \<open>Err\<close> is ENOBUFS is followed by another write of the same bytes to the configured
  address. The first write that succeeds is followed by stopping the timer, and the task
  returns nil; the first write that fails otherwise ends the task with that error and the
  timer started but not stopped; while only ENOBUFS comes back the task is still writing.
  The trace lists the clock readings and the writes in the order they happen.
\<close>

theorem send_task:
  fixes d :: icmpDriver and w :: world and timer :: "64 word Timer"
    and mp :: icmpMessageProvider and bs :: "byte list" and ts :: "bool list"
  defines "now0 \<equiv> clock w (tick w)"
    and "now1 \<equiv> clock w (tick w + 1)"
    and "now2 \<equiv> clock w (tick w + 2)"
    and "addr \<equiv> Addr (config d)"
  defines "msg \<equiv> \<lparr>Type = msgType mp, Code = 0,
                    Body = EchoBody \<lparr>ID = id' mp, Seq = sint (seq mp),
                                     Data = timeToBytes now0 @ intToBytes (tracker mp)\<rparr>\<rparr>"
    and "d' \<equiv> d\<lparr>messageProvider := Some (mp\<lparr>seq := seq mp + 1\<rparr>)\<rparr>"
    and "retries \<equiv> map (\<lambda>t. Some (OpError t ENOBUFS)) ts"
  defines "rewrites \<equiv> map (\<lambda>t. WriteTo bs addr (Some (OpError t ENOBUFS))) ts"
  assumes mp: "messageProvider d = Some mp"
  shows
    "(marshal msg = Inl err \<longrightarrow>
        send marshal d outs timer w =
          Ret (Some (Some err), timer, d',
               w\<lparr>tick := tick w + 1, trace := trace w @ [Now now0]\<rparr>)) \<and>
     (marshal msg = Inr bs \<longrightarrow>
        send marshal d (retries @ None # outs) timer w =
          Ret (Some None, timer\<lparr>Started := now1, Stopped := now2\<rparr>, d',
               w\<lparr>tick := tick w + 3,
                 trace := trace w @ [Now now0, Now now1] @ rewrites
                            @ [WriteTo bs addr None, Now now2]\<rparr>) \<and>
        (\<not> isENOBUFS e \<longrightarrow>
           send marshal d (retries @ Some e # outs) timer w =
             Ret (Some (Some e), timer\<lparr>Started := now1\<rparr>, d',
                  w\<lparr>tick := tick w + 2,
                    trace := trace w @ [Now now0, Now now1] @ rewrites
                               @ [WriteTo bs addr (Some e)]\<rparr>)) \<and>
        send marshal d retries timer w =
          Ret (None, timer\<lparr>Started := now1\<rparr>, d',
               w\<lparr>tick := tick w + 2, trace := trace w @ [Now now0, Now now1] @ rewrites\<rparr>))"
proof -
  have a: "marshal msg = Inl err \<Longrightarrow>
        send marshal d outs timer w =
          Ret (Some (Some err), timer, d',
               w\<lparr>tick := tick w + 1, trace := trace w @ [Now now0]\<rparr>)"
    unfolding msg_def d'_def now0_def by (simp add: send_unfold [OF mp])
  have b: "marshal msg = Inr bs \<Longrightarrow>
        send marshal d (retries @ None # outs) timer w =
          Ret (Some None, timer\<lparr>Started := now1, Stopped := now2\<rparr>, d',
               w\<lparr>tick := tick w + 3,
                 trace := trace w @ [Now now0, Now now1] @ rewrites
                            @ [WriteTo bs addr None, Now now2]\<rparr>)"
    unfolding msg_def d'_def now0_def now1_def now2_def retries_def rewrites_def addr_def
    by (simp add: send_unfold [OF mp] write_loop_retries conn_WriteTo_def time_Now_def Timer_Stop_def)
  have c: "marshal msg = Inr bs \<Longrightarrow> \<not> isENOBUFS e \<Longrightarrow>
           send marshal d (retries @ Some e # outs) timer w =
             Ret (Some (Some e), timer\<lparr>Started := now1\<rparr>, d',
                  w\<lparr>tick := tick w + 2,
                    trace := trace w @ [Now now0, Now now1] @ rewrites
                               @ [WriteTo bs addr (Some e)]\<rparr>)"
    unfolding msg_def d'_def now0_def now1_def now2_def retries_def rewrites_def addr_def
    by (simp add: send_unfold [OF mp] write_loop_retries conn_WriteTo_def)
  have d: "marshal msg = Inr bs \<Longrightarrow>
        send marshal d retries timer w =
          Ret (None, timer\<lparr>Started := now1\<rparr>, d',
               w\<lparr>tick := tick w + 2, trace := trace w @ [Now now0, Now now1] @ rewrites\<rparr>)"
    unfolding msg_def d'_def now0_def now1_def now2_def retries_def rewrites_def addr_def
    using write_loop_retries [of bs "Addr (config d)" ts "[]"]
    by (simp add: send_unfold [OF mp])
  from a b c d show ?thesis by blast
qed

theorem send_task_witness:
  "messageProvider sample_driver = Some (newICMPMessageProvider icmpIPv4Handler 77 5) \<and>
   \<not> isENOBUFS (OpError True (OtherInner ''EPERM'')) \<and>
   send (\<lambda>m. Inr [8, 0]) sample_driver [Some (OpError False ENOBUFS), None]
        \<lparr>Started = 0, Stopped = 0\<rparr> sample_world =
     Ret (Some None, \<lparr>Started = 1010, Stopped = 1020\<rparr>,
          sample_driver\<lparr>messageProvider :=
             Some ((newICMPMessageProvider icmpIPv4Handler 77 5)\<lparr>seq := 1\<rparr>)\<rparr>,
          sample_world\<lparr>tick := 3,
             trace := [Now 1000, Now 1010,
                       WriteTo [8, 0] (Addr (config sample_driver)) (Some (OpError False ENOBUFS)),
                       WriteTo [8, 0] (Addr (config sample_driver)) None, Now 1020]\<rparr>) \<and>
   send (\<lambda>m. Inr [8, 0]) sample_driver
        [Some (OpError False ENOBUFS), Some (OpError True (OtherInner ''EPERM''))]
        \<lparr>Started = 0, Stopped = 0\<rparr> sample_world =
     Ret (Some (Some (OpError True (OtherInner ''EPERM''))), \<lparr>Started = 1010, Stopped = 0\<rparr>,
          sample_driver\<lparr>messageProvider :=
             Some ((newICMPMessageProvider icmpIPv4Handler 77 5)\<lparr>seq := 1\<rparr>)\<rparr>,
          sample_world\<lparr>tick := 2,
             trace := [Now 1000, Now 1010,
                       WriteTo [8, 0] (Addr (config sample_driver)) (Some (OpError False ENOBUFS)),
                       WriteTo [8, 0] (Addr (config sample_driver))
                         (Some (OpError True (OtherInner ''EPERM'')))]\<rparr>) \<and>
   send (\<lambda>m. Inl (ErrorString ''marshal'')) sample_driver [None]
        \<lparr>Started = 0, Stopped = 0\<rparr> sample_world =
     Ret (Some (Some (ErrorString ''marshal'')), \<lparr>Started = 0, Stopped = 0\<rparr>,
          sample_driver\<lparr>messageProvider :=
             Some ((newICMPMessageProvider icmpIPv4Handler 77 5)\<lparr>seq := 1\<rparr>)\<rparr>,
          sample_world\<lparr>tick := 1, trace := [Now 1000]\<rparr>)"
proof -
  have h: "messageProvider sample_driver = Some (newICMPMessageProvider icmpIPv4Handler 77 5)"
    by (simp add: sample_driver_def)
  have s: "seq (newICMPMessageProvider icmpIPv4Handler 77 5) = 0"
    by (simp add: newICMPMessageProvider_def)
  show ?thesis
    using h s
      send_task [OF h, where marshal = "\<lambda>m. Inr [8, 0]" and bs = "[8, 0]" and ts = "[False]"
                   and outs = "[]" and timer = "\<lparr>Started = 0, Stopped = 0\<rparr>" and w = sample_world
                   and e = "OpError True (OtherInner ''EPERM'')"]
      send_task [OF h, where marshal = "\<lambda>m. Inl (ErrorString ''marshal'')"
                   and err = "ErrorString ''marshal''"
                   and outs = "[None]" and timer = "\<lparr>Started = 0, Stopped = 0\<rparr>" and w = sample_world]
    by (simp add: sample_world_def)
qed

section \<open>The message of a raw packet\<close>

lemma handler_Read_ok:
  "rd_err ro = None \<Longrightarrow>
   handler_Read h ro =
     (take 512 (rd_payload ro) @ replicate (512 - length (rd_payload ro)) 0,
      int (min 512 (length (rd_payload ro))),
      (case rd_cm ro of Some t \<Rightarrow> t | None \<Rightarrow> 0), None)"
  by (simp add: handler_Read_def ReadFrom_def Let_def min_def)
lemma handlePacket_sample_reply:
  "handlePacket ParseMessage sample_driver
     \<lparr>Message = sample_reply @ replicate 488 0, Size = 24, TTL = 64\<rparr> = Ret None"
  by (simp add: handlePacket_def ParseMessage_def sample_driver_def sample_reply_def
      ReadData_def timeSize_def trackerSize_def bytesToTime_def bytesToInt_def
      newICMPMessageProvider_def)

lemma ReadFrom_length: "length (fst (ReadFrom ro b)) = length b"
  by (simp add: ReadFrom_def Let_def split: option.splits)

lemma recvPacket_cases:
  "fst (recvPacket d inp) = RawPacket_zero \<or> length (Message (fst (recvPacket d inp))) = 512"
proof -
  have "length (fst (handler_Read (protocolHandler d) (read_out inp))) = 512"
    using ReadFrom_length [of "read_out inp" "replicate 512 0"]
    by (auto simp add: handler_Read_def Let_def split: prod.splits)
  then show ?thesis
    by (auto simp add: recvPacket_def split: option.splits prod.splits)
qed

lemma recv_pushes:
  "raw \<in> set (fst (recv d its)) \<Longrightarrow> raw = RawPacket_zero \<or> length (Message raw) = 512"
proof (induction its)
  case Nil
  then show ?case by simp
next
  case (Cons it its)
  show ?case
  proof (cases it)
    case (CtxDone e)
    with Cons.prems show ?thesis by simp
  next
    case (Attempt inp)
    with Cons recvPacket_cases [of d inp] show ?thesis
      by (auto split: prod.splits option.splits if_splits)
  qed
qed

lemma reply_events_set: "RawReply raw \<in> set evs \<Longrightarrow> raw \<in> set (reply_events evs)"
  by (induction evs rule: reply_events.induct) auto

lemma handlePacket_rejects_zero:
  "handler_Parse parse (protocolHandler d) [] = Inl e \<Longrightarrow>
   handlePacket parse d RawPacket_zero \<noteq> Ret None"
  by (simp add: handlePacket_def RawPacket_zero_def)

lemma Ping_wait_whole_buffer:
  assumes rej: "\<And>proto. \<exists>e. parse proto [] = Inl e"
    and src: "set (reply_events evs) \<subseteq> set (fst (recv d its)) \<union> {RawPacket_zero}"
    and ret: "icmpDriver_Ping_wait parse d evs = Some (Ret (raw, None))"
  shows "length (Message raw) = 512"
proof -
  from Ping_wait_returns_accepted [OF ret]
  have ev: "RawReply raw \<in> set evs" and acc: "handlePacket parse d raw = Ret None"
    by simp_all
  obtain e where "handler_Parse parse (protocolHandler d) [] = Inl e"
    using rej by (cases "protocolHandler d") auto
  then have "raw \<noteq> RawPacket_zero"
    using handlePacket_rejects_zero acc by blast
  moreover have "raw \<in> set (fst (recv d its)) \<union> {RawPacket_zero}"
    using reply_events_set [OF ev] src by blast
  ultimately show ?thesis
    using recv_pushes [of raw d its] by blast
qed

text \<open>
  C10. A read that succeeds makes a \<open>RawPacket\<close> whose \<open>Message\<close> is the whole buffer of
  512 bytes, the datagram in front and zeros behind, whatever the length of the datagram;
  \<open>Size\<close> is the number of bytes read. \<open>Ping\<close> of the driver returns an accepted reply as
  it came off the channel. What comes off the channel is what the receive task pushed, or
  the zero packet of a closed channel; with a parser that rejects the empty buffer, as the
  library's does, the reply that a successful \<open>Ping\<close> returns has a \<open>Message\<close> of 512
  bytes. \<open>Ping\<close> of the Pinger puts the driver's raw packet into the packet unchanged:
  nothing cuts \<open>Message\<close> down to \<open>Size\<close>.
\<close>

theorem recvPacket_whole_buffer:
  "(deadline_err inp = None \<and> rd_err (read_out inp) = None \<longrightarrow>
      recvPacket d inp =
        (\<lparr>Message = take 512 (rd_payload (read_out inp))
                      @ replicate (512 - length (rd_payload (read_out inp))) 0,
          Size = int (min 512 (length (rd_payload (read_out inp)))),
          TTL = (case rd_cm (read_out inp) of Some t \<Rightarrow> t | None \<Rightarrow> 0)\<rparr>, None) \<and>
      length (Message (fst (recvPacket d inp))) = 512) \<and>
   (handlePacket parse d raw = Ret None \<longrightarrow>
      icmpDriver_Ping_wait parse d (RawReply raw # evs) = Some (Ret (raw, None))) \<and>
   ((\<forall>proto. \<exists>e. parse proto [] = Inl e) \<and>
    set (reply_events evs') \<subseteq> set (fst (recv d its)) \<union> {RawPacket_zero} \<and>
    icmpDriver_Ping_wait parse d evs' = Some (Ret (raw', None)) \<longrightarrow>
      length (Message raw') = 512) \<and>
   (drv_Ping D (driver p) \<lparr>Started = Time_zero, Stopped = Time_zero\<rparr>
      = ((raw, None), tm, d') \<longrightarrow>
      (\<exists>pkt. fst (pinger_Ping D p) = Inr pkt \<and> rawPacket pkt = raw))"
proof -
  have "(\<forall>proto. \<exists>e. parse proto [] = Inl e) \<and>
    set (reply_events evs') \<subseteq> set (fst (recv d its)) \<union> {RawPacket_zero} \<and>
    icmpDriver_Ping_wait parse d evs' = Some (Ret (raw', None)) \<longrightarrow>
      length (Message raw') = 512"
    using Ping_wait_whole_buffer [of parse evs' d its raw'] by blast
  then show ?thesis
    by (auto simp add: recvPacket_def handler_Read_ok pinger_Ping_def)
qed

theorem recvPacket_whole_buffer_witness:
  "recvPacket sample_driver
     \<lparr>deadline_err = None,
      read_out = \<lparr>rd_payload = sample_reply, rd_cm = Some 64, rd_err = None\<rparr>\<rparr>
     = (\<lparr>Message = sample_reply @ replicate 488 0, Size = 24, TTL = 64\<rparr>, None) \<and>
   length (sample_reply @ replicate 488 0) = 512 \<and>
   icmpDriver_Ping_wait ParseMessage sample_driver
     [RawReply \<lparr>Message = sample_reply @ replicate 488 0, Size = 24, TTL = 64\<rparr>]
     = Some (Ret (\<lparr>Message = sample_reply @ replicate 488 0, Size = 24, TTL = 64\<rparr>, None)) \<and>
   (\<forall>proto. \<exists>e. ParseMessage proto [] = Inl e) \<and>
   set (reply_events
          [RawReply \<lparr>Message = sample_reply @ replicate 488 0, Size = 24, TTL = 64\<rparr>])
     \<subseteq> set (fst (recv sample_driver
                  [Attempt \<lparr>deadline_err = None,
                            read_out = \<lparr>rd_payload = sample_reply, rd_cm = Some 64,
                                        rd_err = None\<rparr>\<rparr>]))
         \<union> {RawPacket_zero} \<and>
   (\<exists>pkt. fst (pinger_Ping (counting_driver True) \<lparr>connected = True, driver = 0\<rparr>)
            = Inr pkt \<and>
          rawPacket pkt = \<lparr>Message = [1, 2, 3], Size = 3, TTL = 64\<rparr>)"
proof -
  have l: "length sample_reply = 24"
    by (simp add: sample_reply_def)
  have r: "\<forall>proto. \<exists>e. ParseMessage proto [] = Inl e"
    by (simp add: ParseMessage_def)
  show ?thesis
    using l r handlePacket_sample_reply
      recvPacket_whole_buffer
        [where inp = "\<lparr>deadline_err = None,
                       read_out = \<lparr>rd_payload = sample_reply, rd_cm = Some 64, rd_err = None\<rparr>\<rparr>"
           and d = sample_driver and parse = ParseMessage
           and raw = "\<lparr>Message = sample_reply @ replicate 488 0, Size = 24, TTL = 64\<rparr>"
           and evs = "[]"
           and its = "[Attempt \<lparr>deadline_err = None,
                                read_out = \<lparr>rd_payload = sample_reply, rd_cm = Some 64,
                                            rd_err = None\<rparr>\<rparr>]"
           and evs' = "[RawReply \<lparr>Message = sample_reply @ replicate 488 0, Size = 24, TTL = 64\<rparr>]"
           and raw' = "\<lparr>Message = sample_reply @ replicate 488 0, Size = 24, TTL = 64\<rparr>"]
      recvPacket_whole_buffer
        [where D = "counting_driver True" and p = "\<lparr>connected = True, driver = 0\<rparr>"
           and raw = "\<lparr>Message = [1, 2, 3], Size = 3, TTL = 64\<rparr>"
           and tm = "\<lparr>Started = 1000, Stopped = 1250\<rparr>" and d' = "Suc 0"]
    by (simp add: counting_driver_def)
qed

end
